theory Spec2Isabelle
  imports Complex_Main "HOL-Library.Log_Nat"
begin

section \<open>Python values used by server.py\<close>

text \<open>
  Python strings are modelled as \<open>string\<close>: one \<open>char\<close> is one code point below 256, and
  \<open>length\<close> is Python's \<open>len\<close>. Python integers are \<open>int\<close>. A key that is absent from a
  JSON object is \<open>None\<close> in an \<open>option\<close>-valued field, and \<open>d.get(k, default)\<close> is
  \<open>dict_get default (k d)\<close>.
\<close>

definition dict_get :: "'a \<Rightarrow> 'a option \<Rightarrow> 'a" where
  "dict_get dflt v = (case v of None \<Rightarrow> dflt | Some x \<Rightarrow> x)"

subsection \<open>\<open>str(n)\<close> for an integer\<close>

definition digit_char :: "nat \<Rightarrow> char" where
  "digit_char d = ''0123456789'' ! (d mod 10)"

fun str_nat :: "nat \<Rightarrow> string" where
  "str_nat n = (if n < 10 then [digit_char n] else str_nat (n div 10) @ [digit_char (n mod 10)])"

declare str_nat.simps [simp del]

definition str_int :: "int \<Rightarrow> string" where
  "str_int i = (if i < 0 then CHR ''-'' # str_nat (nat (- i)) else str_nat (nat i))"

subsection \<open>String methods\<close>

text \<open>
  \<open>str.strip()\<close> and \<open>str.split()\<close> remove the characters for which \<open>str.isspace\<close> holds;
  below 256 these are the code points 9 to 13, 28 to 32, 133 and 160.
\<close>

definition is_space :: "char \<Rightarrow> bool" where
  "is_space c \<longleftrightarrow>
     c \<in> set [CHR 0x09, CHR 0x0A, CHR 0x0B, CHR 0x0C, CHR 0x0D, CHR 0x1C, CHR 0x1D,
                        CHR 0x1E, CHR 0x1F, CHR 0x20, CHR 0x85, CHR 0xA0]"

definition py_strip :: "string \<Rightarrow> string" where
  "py_strip s = rev (dropWhile is_space (rev (dropWhile is_space s)))"

text \<open>
  \<open>s.replace(old, new)\<close> for a non-empty \<open>old\<close> (server.py passes the literals \<open>PT\<close>, \<open>M\<close>
  and \<open>S\<close>): occurrences are replaced from the left and do not overlap.
\<close>

function py_replace :: "string \<Rightarrow> string \<Rightarrow> string \<Rightarrow> string" where
  "py_replace old new s =
     (if s = [] \<or> old = [] then s
      else if take (length old) s = old then new @ py_replace old new (drop (length old) s)
      else hd s # py_replace old new (tl s))"
  by pat_completeness auto
termination
  by (relation "measure (\<lambda>(old, new, s). length s)") auto

declare py_replace.simps [simp del]

text \<open>\<open>s.split(sep)\<close> for a separator of one character: always at least one part.\<close>

fun py_split :: "char \<Rightarrow> string \<Rightarrow> string list" where
  "py_split sep [] = [[]]"
| "py_split sep (c # cs) =
     (if c = sep then [] # py_split sep cs
      else (case py_split sep cs of [] \<Rightarrow> [[c]] | p # ps \<Rightarrow> (c # p) # ps))"

text \<open>\<open>s.split()\<close>: the maximal runs of non-space characters; \<open>w\<close> is the run being read.\<close>

fun split_ws :: "string \<Rightarrow> string \<Rightarrow> string list" where
  "split_ws w [] = (if w = [] then [] else [w])"
| "split_ws w (c # cs) =
     (if is_space c then (if w = [] then split_ws [] cs else w # split_ws [] cs)
      else split_ws (w @ [c]) cs)"

fun py_join :: "string \<Rightarrow> string list \<Rightarrow> string" where
  "py_join sep [] = []"
| "py_join sep [x] = x"
| "py_join sep (x # y # ys) = x @ sep @ py_join sep (y # ys)"

subsection \<open>Exceptions\<close>

datatype pyerr = ValueError | OverflowError | ZeroDivisionError

subsection \<open>Floats\<close>

text \<open>
  A Python float is an IEEE 754 binary64 value: a finite value with its sign bit (\<open>True\<close> for
  negative, so that \<open>-0.0\<close> is \<open>Finite True 0\<close>) and its magnitude as a rational, an
  infinity with its sign, or a NaN.
\<close>

datatype pyfloat = Finite bool rat | Inf bool | NaN

text \<open>\<open>ilog b x\<close> is the integer \<open>e\<close> with \<open>b^e \<le> x < b^(e+1)\<close>, for \<open>x > 0\<close> and \<open>b > 1\<close>.\<close>

definition ilog :: "nat \<Rightarrow> rat \<Rightarrow> int" where
  "ilog b x = (if 1 \<le> x then int (floorlog b (nat \<lfloor>x\<rfloor>)) - 1
               else - int (floorlog b (nat (\<lceil>1 / x\<rceil> - 1))))"

text \<open>Rounding to the nearest integer, a tie going to the even one.\<close>

definition round_half_even :: "rat \<Rightarrow> int" where
  "round_half_even x =
     (let f = \<lfloor>x\<rfloor>; d = x - of_int f
      in if d < 1 / 2 then f else if 1 / 2 < d then f + 1 else if even f then f else f + 1)"

text \<open>
  The binary64 value nearest to a magnitude \<open>x \<ge> 0\<close> (ties to even): 53 significant bits,
  the least exponent -1022 (below it the spacing stays \<open>2^-1074\<close>), infinity from \<open>2^1024\<close> on.
\<close>

definition round_double :: "bool \<Rightarrow> rat \<Rightarrow> pyfloat" where
  "round_double neg x =
     (if x = 0 then Finite neg 0
      else let e = max (ilog 2 x) (- 1022);
               u = 2 powi (e - 52);
               r = of_int (round_half_even (x / u)) * u
           in if 2 ^ 1024 \<le> r then Inf neg else Finite neg r)"

text \<open>\<open>int(x)\<close> for a float: truncation towards zero; an infinity or a NaN raises.\<close>

fun int_of_float :: "pyfloat \<Rightarrow> pyerr + int" where
  "int_of_float (Finite neg r) = Inr (if neg then - \<lfloor>r\<rfloor> else \<lfloor>r\<rfloor>)"
| "int_of_float (Inf neg) = Inl OverflowError"
| "int_of_float NaN = Inl ValueError"

text \<open>\<open>a / b\<close> for two integers: the correctly rounded quotient.\<close>

definition int_truediv :: "int \<Rightarrow> int \<Rightarrow> pyerr + pyfloat" where
  "int_truediv a b =
     (if b = 0 then Inl ZeroDivisionError
      else (case round_double ((a < 0) \<noteq> (b < 0)) (of_int \<bar>a\<bar> / of_int \<bar>b\<bar>) of
              Inf neg \<Rightarrow> Inl OverflowError
            | q \<Rightarrow> Inr q))"

text \<open>\<open>x * y\<close> for two floats.\<close>

fun float_mul :: "pyfloat \<Rightarrow> pyfloat \<Rightarrow> pyfloat" where
  "float_mul (Finite s1 r1) (Finite s2 r2) = round_double (s1 \<noteq> s2) (r1 * r2)"
| "float_mul (Finite s1 r1) (Inf s2) = (if r1 = 0 then NaN else Inf (s1 \<noteq> s2))"
| "float_mul (Inf s1) (Finite s2 r2) = (if r2 = 0 then NaN else Inf (s1 \<noteq> s2))"
| "float_mul (Inf s1) (Inf s2) = Inf (s1 \<noteq> s2)"
| "float_mul NaN y = NaN"
| "float_mul x NaN = NaN"

text \<open>
  \<open>round(x, 1)\<close>: the exact value of \<open>x\<close> is rounded to one decimal place (ties to even)
  and the decimal is read back as a float; infinities and NaN are returned as they are.
\<close>

fun py_round1 :: "pyfloat \<Rightarrow> pyerr + pyfloat" where
  "py_round1 (Finite neg r) =
     (case round_double neg (of_int (round_half_even (r * 10)) / 10) of
        Inf s \<Rightarrow> Inl OverflowError
      | y \<Rightarrow> Inr y)"
| "py_round1 x = Inr x"

subsection \<open>\<open>int(s)\<close> and \<open>float(s)\<close> for a string\<close>

text \<open>
  Both skip white space at the two ends: the ASCII white space 9 to 13 and 32, and the
  other characters of \<open>str.isspace\<close> from 127 on (below 256: 133 and 160). Every other
  character from 127 on makes the string invalid, as do 28 to 31.
\<close>

definition is_num_space :: "char \<Rightarrow> bool" where
  "is_num_space c \<longleftrightarrow>
     c \<in> set [CHR 0x09, CHR 0x0A, CHR 0x0B, CHR 0x0C, CHR 0x0D, CHR 0x20, CHR 0x85, CHR 0xA0]"

definition num_strip :: "string \<Rightarrow> string" where
  "num_strip s = rev (dropWhile is_num_space (rev (dropWhile is_num_space s)))"

definition digit_val :: "char \<Rightarrow> nat option" where
  "digit_val = map_of [(CHR ''0'', 0), (CHR ''1'', 1), (CHR ''2'', 2), (CHR ''3'', 3), (CHR ''4'', 4),
                       (CHR ''5'', 5), (CHR ''6'', 6), (CHR ''7'', 7), (CHR ''8'', 8), (CHR ''9'', 9)]"

definition is_digit :: "char \<Rightarrow> bool" where
  "is_digit c \<longleftrightarrow> digit_val c \<noteq> None"

definition digits_val :: "string \<Rightarrow> nat" where
  "digits_val ds = foldl (\<lambda>a c. 10 * a + dict_get 0 (digit_val c)) 0 ds"

text \<open>
  An underscore is allowed between two digits only; the function returns the string
  without its underscores, or \<open>None\<close> for a misplaced one. \<open>prev\<close> is the character before.
\<close>

fun strip_underscores :: "char \<Rightarrow> string \<Rightarrow> string option" where
  "strip_underscores prev [] = (if prev = CHR ''_'' then None else Some [])"
| "strip_underscores prev (c # cs) =
     (if c = CHR ''_'' then (if is_digit prev then strip_underscores c cs else None)
      else if prev = CHR ''_'' \<and> \<not> is_digit c then None
      else map_option ((#) c) (strip_underscores c cs))"

definition split_sign :: "string \<Rightarrow> bool \<times> string" where
  "split_sign s =
     (case s of
        [] \<Rightarrow> (False, [])
      | c # cs \<Rightarrow> if c = CHR ''-'' then (True, cs) else if c = CHR ''+'' then (False, cs) else (False, s))"

text \<open>
  \<open>int(s)\<close>, base 10: an optional sign and digits. More than 4300 digits raise (the
  interpreter's default limit for the conversion of a string to an integer).
\<close>

definition int_of_str :: "string \<Rightarrow> pyerr + int" where
  "int_of_str s =
     (let (neg, b) = split_sign (num_strip s)
      in case strip_underscores (CHR 0x00) b of
           None \<Rightarrow> Inl ValueError
         | Some ds \<Rightarrow>
             if ds = [] \<or> \<not> list_all is_digit ds \<or> 4300 < length ds then Inl ValueError
             else Inr (if neg then - int (digits_val ds) else int (digits_val ds)))"

definition ascii_lower :: "char \<Rightarrow> char" where
  "ascii_lower c =
     dict_get c (map_of (zip ''ABCDEFGHIJKLMNOPQRSTUVWXYZ'' ''abcdefghijklmnopqrstuvwxyz'') c)"

text \<open>What may follow the mantissa: nothing, or \<open>e\<close> or \<open>E\<close>, an optional sign and digits.\<close>

definition parse_exponent :: "string \<Rightarrow> int option" where
  "parse_exponent s =
     (case s of
        [] \<Rightarrow> Some 0
      | c # cs \<Rightarrow>
          if c = CHR ''e'' \<or> c = CHR ''E''
          then (let (neg, ds) = split_sign cs
                in if ds \<noteq> [] \<and> list_all is_digit ds
                   then Some (if neg then - int (digits_val ds) else int (digits_val ds))
                   else None)
          else None)"

text \<open>A decimal numeral without sign: digits, an optional point and digits, an exponent.\<close>

definition parse_decimal :: "string \<Rightarrow> rat option" where
  "parse_decimal s =
     (let ip = takeWhile is_digit s;
          r1 = dropWhile is_digit s;
          (fp, r2) = (case r1 of
                        [] \<Rightarrow> ([], [])
                      | c # cs \<Rightarrow> if c = CHR ''.'' then (takeWhile is_digit cs, dropWhile is_digit cs)
                                  else ([], r1))
      in if ip @ fp = [] then None
         else (case parse_exponent r2 of
                 None \<Rightarrow> None
               | Some e \<Rightarrow> Some (of_nat (digits_val (ip @ fp)) * 10 powi (e - int (length fp)))))"

text \<open>\<open>float(s)\<close>: the correctly rounded value of the numeral, an infinity or a NaN.\<close>

definition float_of_str :: "string \<Rightarrow> pyerr + pyfloat" where
  "float_of_str s =
     (case strip_underscores (CHR 0x00) (num_strip s) of
        None \<Rightarrow> Inl ValueError
      | Some u \<Rightarrow>
          (let (neg, b) = split_sign u; lb = map ascii_lower b
           in if lb = ''inf'' \<or> lb = ''infinity'' then Inr (Inf neg)
              else if lb = ''nan'' then Inr NaN
              else (case parse_decimal b of
                      None \<Rightarrow> Inl ValueError
                    | Some v \<Rightarrow> Inr (round_double neg v))))"

text \<open>\<open>int(float(s))\<close>, as the source composes them.\<close>

definition int_float_of_str :: "string \<Rightarrow> pyerr + int" where
  "int_float_of_str s = (case float_of_str s of Inl e \<Rightarrow> Inl e | Inr x \<Rightarrow> int_of_float x)"

subsection \<open>Formatting\<close>

text \<open>\<open>format(n, "02d")\<close>: at least two characters, zeros after the sign.\<close>

definition fmt_02d :: "int \<Rightarrow> string" where
  "fmt_02d n = (if 0 \<le> n \<and> n < 10 then CHR ''0'' # str_int n else str_int n)"

text \<open>
  \<open>str(x)\<close> for a float is the shortest decimal numeral that reads back as \<open>x\<close>, the closest
  one to \<open>x\<close> when two are as short; 17 significant digits always suffice.
  \<open>repr_candidate n x\<close> is the numeral of \<open>n\<close> significant digits, as an integer, if there
  is one; \<open>shortest_digits\<close> tries \<open>n\<close>, \<open>n + 1\<close>, \<dots>
\<close>

definition repr_candidate :: "nat \<Rightarrow> rat \<Rightarrow> int option" where
  "repr_candidate n x =
     (let sc = 10 powi (int n - 1 - ilog 10 x);
          lo = \<lfloor>x * sc\<rfloor>; hi = lo + 1;
          ok_lo = (round_double False (of_int lo / sc) = Finite False x);
          ok_hi = (round_double False (of_int hi / sc) = Finite False x);
          dl = x * sc - of_int lo; dh = of_int hi - x * sc
      in if ok_lo \<and> ok_hi
         then (if dl < dh then Some lo else if dh < dl then Some hi
               else if even lo then Some lo else Some hi)
         else if ok_lo then Some lo
         else if ok_hi then Some hi
         else None)"

fun shortest_digits :: "nat \<Rightarrow> nat \<Rightarrow> rat \<Rightarrow> int \<times> nat" where
  "shortest_digits 0 n x = (\<lfloor>x * 10 powi (int n - 1 - ilog 10 x)\<rfloor>, n)"
| "shortest_digits (Suc fuel) n x =
     (case repr_candidate n x of
        Some c \<Rightarrow> (c, n)
      | None \<Rightarrow> shortest_digits fuel (Suc n) x)"

definition strip_zeros :: "string \<Rightarrow> string" where
  "strip_zeros ds = rev (dropWhile (\<lambda>c. c = CHR ''0'') (rev ds))"

text \<open>
  The numeral is written with a point when the position of the point, counted from the
  first digit, is between -3 and 16, and with an exponent of at least two digits otherwise.
\<close>

definition repr_finite :: "rat \<Rightarrow> string" where
  "repr_finite x =
     (if x = 0 then ''0.0''
      else let (c, n) = shortest_digits 17 1 x;
               decpt = ilog 10 x + 1 + (if 10 ^ n \<le> c then 1 else 0);
               ds = strip_zeros (str_int c);
               len = int (length ds)
           in if - 4 < decpt \<and> decpt \<le> 16
              then (if decpt \<le> 0 then ''0.'' @ replicate (nat (- decpt)) (CHR ''0'') @ ds
                    else if len \<le> decpt then ds @ replicate (nat (decpt - len)) (CHR ''0'') @ ''.0''
                    else take (nat decpt) ds @ ''.'' @ drop (nat decpt) ds)
              else take 1 ds @ (if 1 < len then ''.'' @ drop 1 ds else []) @ ''e''
                   @ (if decpt - 1 < 0 then ''-'' else ''+'') @ fmt_02d \<bar>decpt - 1\<bar>)"

fun str_float :: "pyfloat \<Rightarrow> string" where
  "str_float (Finite neg x) = (if neg then CHR ''-'' # repr_finite x else repr_finite x)"
| "str_float (Inf neg) = (if neg then ''-inf'' else ''inf'')"
| "str_float NaN = ''nan''"

section \<open>Shooting percentage\<close>

text \<open>
  \<^verbatim>\<open>
  def _pct(made, attempted):
      if attempted == 0:
          return 0.0
      return round((made / attempted) * 100, 1)
  \<close>
  The two arguments are the integer counts of the feed.
\<close>

definition pct :: "int \<Rightarrow> int \<Rightarrow> pyerr + pyfloat" where
  "pct made attempted =
     (if attempted = 0 then Inr (Finite False 0)
      else (case int_truediv made attempted of
              Inl e \<Rightarrow> Inl e
            | Inr q \<Rightarrow> py_round1 (float_mul q (Finite False 100))))"

section \<open>Minutes\<close>

text \<open>
  A value of the feed that may be a number or a string: an \<open>int\<close> (or \<open>bool\<close>), a \<open>float\<close>,
  a \<open>str\<close>, or any other object, given by its \<open>str()\<close> text.
\<close>

datatype pyval = VInt int | VFloat pyfloat | VStr string | VOther string

fun py_str :: "pyval \<Rightarrow> string" where
  "py_str (VInt i) = str_int i"
| "py_str (VFloat x) = str_float x"
| "py_str (VStr s) = s"
| "py_str (VOther s) = s"

text \<open>
  \<^verbatim>\<open>
  def _parse_minutes(val):
      if isinstance(val, (int, float)):
          return int(val)
      s = str(val).replace("PT", "").replace("M", "").replace("S", "").strip()
      try:
          if ":" in s:
              return int(s.split(":")[0])
          return int(float(s))
      except:
          return 0
  \<close>
  The conversion of a number is outside the \<open>try\<close>: its exception leaves the function.
\<close>

definition minutes_token :: "string \<Rightarrow> string" where
  "minutes_token v = py_strip (py_replace ''S'' [] (py_replace ''M'' [] (py_replace ''PT'' [] v)))"

definition parse_minutes_str :: "string \<Rightarrow> int" where
  "parse_minutes_str v =
     (let s = minutes_token v
      in case (if CHR '':'' \<in> set s
               then (case py_split (CHR '':'') s of [] \<Rightarrow> Inl ValueError | p # ps \<Rightarrow> int_of_str p)
               else int_float_of_str s) of
           Inl e \<Rightarrow> 0
         | Inr m \<Rightarrow> m)"

fun parse_minutes :: "pyval \<Rightarrow> pyerr + int" where
  "parse_minutes (VInt i) = Inr i"
| "parse_minutes (VFloat x) = int_of_float x"
| "parse_minutes (VStr s) = Inr (parse_minutes_str s)"
| "parse_minutes (VOther s) = Inr (parse_minutes_str s)"

section \<open>Names and plus-minus\<close>

text \<open>
  \<^verbatim>\<open>
  def _short_name(full):
      parts = full.strip().split()
      if len(parts) >= 2:
          return f"{parts[0][0]}. {' '.join(parts[1:])}"
      return full
  \<close>
  A part of \<open>split()\<close> is never empty, so \<open>parts[0][0]\<close> is its first character.
\<close>

definition short_name :: "string \<Rightarrow> string" where
  "short_name full =
     (let parts = split_ws [] (py_strip full)
      in if 2 \<le> length parts then take 1 (hd parts) @ ''. '' @ py_join '' '' (tl parts) else full)"

text \<open>
  \<^verbatim>\<open>
  def _format_pm(val):
      if val > 0: return f"+{val}"
      elif val < 0: return str(val)
      return "0"
  \<close>
\<close>

definition format_pm :: "int \<Rightarrow> string" where
  "format_pm val = (if 0 < val then CHR ''+'' # str_int val else if val < 0 then str_int val else ''0'')"

section \<open>Player box scores (\_parse\_players)\<close>

text \<open>
  The objects of the feed, with the keys that server.py reads. The counts are integers
  and the flags and names are strings, as the feed sends them.
\<close>

record raw_statistics =
  s_minutesCalculated :: "pyval option"
  s_minutes :: "pyval option"
  s_points :: "int option"
  s_fieldGoalsMade :: "int option"
  s_fieldGoalsAttempted :: "int option"
  s_threePointersMade :: "int option"
  s_threePointersAttempted :: "int option"
  s_freeThrowsMade :: "int option"
  s_freeThrowsAttempted :: "int option"
  s_reboundsOffensive :: "int option"
  s_reboundsDefensive :: "int option"
  s_reboundsTotal :: "int option"
  s_assists :: "int option"
  s_steals :: "int option"
  s_blocks :: "int option"
  s_turnovers :: "int option"
  s_foulsPersonal :: "int option"
  s_plusMinusPoints :: "int option"

definition empty_statistics :: raw_statistics where
  "empty_statistics =
     \<lparr>s_minutesCalculated = None, s_minutes = None, s_points = None, s_fieldGoalsMade = None,
      s_fieldGoalsAttempted = None, s_threePointersMade = None, s_threePointersAttempted = None,
      s_freeThrowsMade = None, s_freeThrowsAttempted = None, s_reboundsOffensive = None,
      s_reboundsDefensive = None, s_reboundsTotal = None, s_assists = None, s_steals = None,
      s_blocks = None, s_turnovers = None, s_foulsPersonal = None, s_plusMinusPoints = None\<rparr>"

record raw_player =
  p_statistics :: "raw_statistics option"
  p_status :: "string option"
  p_played :: "string option"
  p_starter :: "string option"
  p_notPlayingReason :: "string option"
  p_name :: "string option"
  p_firstName :: "string option"
  p_familyName :: "string option"
  p_position :: "string option"

text \<open>The entries of the result: a line of a player who played, and a DNP entry.\<close>

record player_line =
  pl_n :: string
  pl_pos :: string
  pl_min :: int
  pl_pts :: int
  pl_fg :: string
  pl_tp :: string
  pl_ft :: string
  pl_or :: int
  pl_dr :: int
  pl_reb :: int
  pl_ast :: int
  pl_stl :: int
  pl_blk :: int
  pl_to :: int
  pl_pf :: int
  pl_pm :: string

record dnp_entry =
  dnp_n :: string
  dnp_r :: string

text \<open>The dictionary \<open>totals\<close> of the loop; \<open>fg\<close>, \<open>tp\<close> and \<open>ft\<close> hold made and attempted.\<close>

record totals_acc =
  a_min :: int
  a_pts :: int
  a_fg :: "int \<times> int"
  a_tp :: "int \<times> int"
  a_ft :: "int \<times> int"
  a_or :: int
  a_dr :: int
  a_reb :: int
  a_ast :: int
  a_stl :: int
  a_blk :: int
  a_to :: int
  a_pf :: int

definition totals_init :: totals_acc where
  "totals_init = \<lparr>a_min = 0, a_pts = 0, a_fg = (0, 0), a_tp = (0, 0), a_ft = (0, 0), a_or = 0,
                   a_dr = 0, a_reb = 0, a_ast = 0, a_stl = 0, a_blk = 0, a_to = 0, a_pf = 0\<rparr>"

record totals_line =
  tot_min :: int
  tot_pts :: int
  tot_fg :: string
  tot_tp :: string
  tot_ft :: string
  tot_or :: int
  tot_dr :: int
  tot_reb :: int
  tot_ast :: int
  tot_stl :: int
  tot_blk :: int
  tot_to :: int
  tot_pf :: int
  tot_pm :: string

record pcts_line =
  pc_fg :: string
  pc_tp :: string
  pc_ft :: string

record player_section =
  ps_starters :: "player_line list"
  ps_bench :: "player_line list"
  ps_dnp :: "dnp_entry list"
  ps_totals :: totals_line
  ps_pcts :: pcts_line

text \<open>The four variables that the loop over \<open>players_data\<close> updates.\<close>

record loop_state =
  st_starters :: "player_line list"
  st_bench :: "player_line list"
  st_dnp :: "dnp_entry list"
  st_totals :: totals_acc

definition loop_init :: loop_state where
  "loop_init = \<lparr>st_starters = [], st_bench = [], st_dnp = [], st_totals = totals_init\<rparr>"

text \<open>
  The dash of the literals \<open>"DNP \<dots> {reason}"\<close> and of the default leader name is U+2014,
  outside the characters below 256; it stands here as its three UTF-8 bytes. Nothing in
  server.py measures or compares a string that holds it.
\<close>

definition em_dash :: string where
  "em_dash = [CHR 0xE2, CHR 0x80, CHR 0x94]"

text \<open>\<open>f"{made}-{attempted}"\<close>\<close>

definition made_att :: "int \<Rightarrow> int \<Rightarrow> string" where
  "made_att made attempted = str_int made @ ''-'' @ str_int attempted"

definition player_name :: "raw_player \<Rightarrow> string" where
  "player_name p =
     short_name (dict_get (dict_get [] (p_firstName p) @ '' '' @ dict_get [] (p_familyName p)) (p_name p))"

text \<open>
  \<^verbatim>\<open>
  status = p.get("status", "ACTIVE")
  played = p.get("played", "1")
  if status != "ACTIVE" or played == "0":
  \<close>
\<close>

definition not_playing :: "raw_player \<Rightarrow> bool" where
  "not_playing p \<longleftrightarrow> dict_get ''ACTIVE'' (p_status p) \<noteq> ''ACTIVE'' \<or> dict_get ''1'' (p_played p) = ''0''"

definition is_starter :: "raw_player \<Rightarrow> bool" where
  "is_starter p \<longleftrightarrow> dict_get ''0'' (p_starter p) = ''1''"

definition dnp_of :: "raw_player \<Rightarrow> dnp_entry" where
  "dnp_of p =
     \<lparr>dnp_n = player_name p,
      dnp_r = ''DNP '' @ em_dash @ '' '' @ dict_get ''Coach's Decision'' (p_notPlayingReason p)\<rparr>"

text \<open>\<open>player_obj\<close>, given the parsed minutes.\<close>

definition player_obj :: "raw_player \<Rightarrow> int \<Rightarrow> player_line" where
  "player_obj p min_val =
     (let stats = dict_get empty_statistics (p_statistics p)
      in \<lparr>pl_n = player_name p,
          pl_pos = dict_get [] (p_position p),
          pl_min = min_val,
          pl_pts = dict_get 0 (s_points stats),
          pl_fg = made_att (dict_get 0 (s_fieldGoalsMade stats)) (dict_get 0 (s_fieldGoalsAttempted stats)),
          pl_tp = made_att (dict_get 0 (s_threePointersMade stats)) (dict_get 0 (s_threePointersAttempted stats)),
          pl_ft = made_att (dict_get 0 (s_freeThrowsMade stats)) (dict_get 0 (s_freeThrowsAttempted stats)),
          pl_or = dict_get 0 (s_reboundsOffensive stats),
          pl_dr = dict_get 0 (s_reboundsDefensive stats),
          pl_reb = dict_get 0 (s_reboundsTotal stats),
          pl_ast = dict_get 0 (s_assists stats),
          pl_stl = dict_get 0 (s_steals stats),
          pl_blk = dict_get 0 (s_blocks stats),
          pl_to = dict_get 0 (s_turnovers stats),
          pl_pf = dict_get 0 (s_foulsPersonal stats),
          pl_pm = format_pm (dict_get 0 (s_plusMinusPoints stats))\<rparr>)"

text \<open>The statements under \<open># Update totals\<close>.\<close>

definition add_totals :: "raw_player \<Rightarrow> player_line \<Rightarrow> totals_acc \<Rightarrow> totals_acc" where
  "add_totals p obj t =
     (let stats = dict_get empty_statistics (p_statistics p)
      in \<lparr>a_min = a_min t + pl_min obj,
          a_pts = a_pts t + pl_pts obj,
          a_fg = (fst (a_fg t) + dict_get 0 (s_fieldGoalsMade stats),
                  snd (a_fg t) + dict_get 0 (s_fieldGoalsAttempted stats)),
          a_tp = (fst (a_tp t) + dict_get 0 (s_threePointersMade stats),
                  snd (a_tp t) + dict_get 0 (s_threePointersAttempted stats)),
          a_ft = (fst (a_ft t) + dict_get 0 (s_freeThrowsMade stats),
                  snd (a_ft t) + dict_get 0 (s_freeThrowsAttempted stats)),
          a_or = a_or t + pl_or obj,
          a_dr = a_dr t + pl_dr obj,
          a_reb = a_reb t + pl_reb obj,
          a_ast = a_ast t + pl_ast obj,
          a_stl = a_stl t + pl_stl obj,
          a_blk = a_blk t + pl_blk obj,
          a_to = a_to t + pl_to obj,
          a_pf = a_pf t + pl_pf obj\<rparr>)"

text \<open>
  \<^verbatim>\<open>mins = stats.get("minutesCalculated", stats.get("minutes", "0"))\<close>
\<close>

definition player_minutes :: "raw_player \<Rightarrow> pyval" where
  "player_minutes p =
     (let stats = dict_get empty_statistics (p_statistics p)
      in dict_get (dict_get (VStr ''0'') (s_minutes stats)) (s_minutesCalculated stats))"

text \<open>One pass of the body of \<open>for p in players_data\<close>.\<close>

definition player_step :: "raw_player \<Rightarrow> loop_state \<Rightarrow> pyerr + loop_state" where
  "player_step p st =
     (if not_playing p then Inr (st\<lparr>st_dnp := st_dnp st @ [dnp_of p]\<rparr>)
      else (case parse_minutes (player_minutes p) of
              Inl e \<Rightarrow> Inl e
            | Inr min_val \<Rightarrow>
                (let obj = player_obj p min_val;
                     st' = st\<lparr>st_totals := add_totals p obj (st_totals st)\<rparr>
                 in if is_starter p then Inr (st'\<lparr>st_starters := st_starters st' @ [obj]\<rparr>)
                    else Inr (st'\<lparr>st_bench := st_bench st' @ [obj]\<rparr>))))"

fun players_loop :: "raw_player list \<Rightarrow> loop_state \<Rightarrow> pyerr + loop_state" where
  "players_loop [] st = Inr st"
| "players_loop (p # ps) st =
     (case player_step p st of Inl e \<Rightarrow> Inl e | Inr st' \<Rightarrow> players_loop ps st')"

definition totals_formatted :: "totals_acc \<Rightarrow> totals_line" where
  "totals_formatted t =
     \<lparr>tot_min = a_min t, tot_pts = a_pts t,
      tot_fg = made_att (fst (a_fg t)) (snd (a_fg t)),
      tot_tp = made_att (fst (a_tp t)) (snd (a_tp t)),
      tot_ft = made_att (fst (a_ft t)) (snd (a_ft t)),
      tot_or = a_or t, tot_dr = a_dr t, tot_reb = a_reb t, tot_ast = a_ast t,
      tot_stl = a_stl t, tot_blk = a_blk t, tot_to = a_to t, tot_pf = a_pf t, tot_pm = []\<rparr>"

text \<open>\<open>f"{_pct(made, attempted)}%"\<close>\<close>

definition pct_text :: "int \<times> int \<Rightarrow> pyerr + string" where
  "pct_text ma = (case pct (fst ma) (snd ma) of Inl e \<Rightarrow> Inl e | Inr x \<Rightarrow> Inr (str_float x @ ''%''))"

definition pcts_of :: "totals_acc \<Rightarrow> pyerr + pcts_line" where
  "pcts_of t =
     (case pct_text (a_fg t) of
        Inl e \<Rightarrow> Inl e
      | Inr fg \<Rightarrow>
          (case pct_text (a_tp t) of
             Inl e \<Rightarrow> Inl e
           | Inr tp \<Rightarrow>
               (case pct_text (a_ft t) of
                  Inl e \<Rightarrow> Inl e
                | Inr ft \<Rightarrow> Inr \<lparr>pc_fg = fg, pc_tp = tp, pc_ft = ft\<rparr>)))"

definition parse_players :: "raw_player list \<Rightarrow> pyerr + player_section" where
  "parse_players players_data =
     (case players_loop players_data loop_init of
        Inl e \<Rightarrow> Inl e
      | Inr st \<Rightarrow>
          (case pcts_of (st_totals st) of
             Inl e \<Rightarrow> Inl e
           | Inr pcts \<Rightarrow>
               Inr \<lparr>ps_starters = st_starters st, ps_bench = st_bench st, ps_dnp = st_dnp st,
                    ps_totals = totals_formatted (st_totals st), ps_pcts = pcts\<rparr>))"

section \<open>Quarter scores of a team (fetch\_games, parse\_team)\<close>

text \<open>
  \<^verbatim>\<open>
  periods = t.get("periods", [])
  quarters = [p.get("score", 0) for p in periods] if periods else []
  while len(quarters) < 4:
      quarters.append(0)
  ... "quarters": quarters[:4]
  \<close>
  A period is a JSON object of which only the key \<open>score\<close> is read.
\<close>

record raw_period =
  pd_score :: "int option"

function pad_quarters :: "int list \<Rightarrow> int list" where
  "pad_quarters quarters = (if length quarters < 4 then pad_quarters (quarters @ [0]) else quarters)"
  by pat_completeness auto
termination
  by (relation "measure (\<lambda>quarters. 4 - length quarters)") auto

declare pad_quarters.simps [simp del]

definition team_quarters :: "raw_period list option \<Rightarrow> int list" where
  "team_quarters t_periods =
     (let periods = dict_get [] t_periods;
          quarters = (if periods \<noteq> [] then map (\<lambda>p. dict_get 0 (pd_score p)) periods else [])
      in take 4 (pad_quarters quarters))"

section \<open>Team box scores (fetch\_games, parse\_team)\<close>

record raw_leaders =
  ld_name :: "string option"
  ld_points :: "int option"
  ld_rebounds :: "int option"
  ld_assists :: "int option"

record raw_game_leaders =
  gl_homeLeaders :: "raw_leaders option"
  gl_awayLeaders :: "raw_leaders option"

record raw_team =
  t_teamTricode :: "string option"
  t_teamCity :: "string option"
  t_teamName :: "string option"
  t_wins :: "int option"
  t_losses :: "int option"
  t_score :: "int option"
  t_periods :: "raw_period list option"
  t_statistics :: "raw_statistics option"
  t_players :: "raw_player list option"

definition empty_team :: raw_team where
  "empty_team =
     \<lparr>t_teamTricode = None, t_teamCity = None, t_teamName = None, t_wins = None, t_losses = None,
      t_score = None, t_periods = None, t_statistics = None, t_players = None\<rparr>"

record raw_game =
  g_gameId :: "string option"
  g_gameStatus :: "int option"
  g_gameStatusText :: "string option"
  g_period :: "int option"
  g_gameClock :: "string option"
  g_arenaName :: "string option"
  g_homeTeam :: "raw_team option"
  g_awayTeam :: "raw_team option"
  g_gameLeaders :: "raw_game_leaders option"

record leader =
  le_p :: string
  le_v :: int

record leaders =
  l_pts :: leader
  l_reb :: leader
  l_ast :: leader

record splits =
  sp_fg :: pyfloat
  sp_tp :: pyfloat
  sp_ft :: pyfloat

record team_box =
  b_abbr :: string
  b_city :: string
  b_name :: string
  b_record :: string
  b_score :: int
  b_quarters :: "int list"
  b_leaders :: leaders
  b_splits :: splits
  b_players :: player_section

text \<open>
  The leaders of a side: the defaults, overwritten by the entries of the block of
  \<open>gameLeaders\<close> for the side of \<open>t\<close>, which is \<open>home\<close> exactly when \<open>t == home\<close>.
\<close>

definition default_leader :: leader where
  "default_leader = \<lparr>le_p = em_dash, le_v = 0\<rparr>"

definition side_update :: "raw_leaders \<Rightarrow> leaders \<Rightarrow> leaders" where
  "side_update ld l =
     (let nm = dict_get em_dash (ld_name ld);
          l1 = (case ld_points ld of None \<Rightarrow> l | Some v \<Rightarrow> l\<lparr>l_pts := \<lparr>le_p = nm, le_v = v\<rparr>\<rparr>);
          l2 = (case ld_rebounds ld of None \<Rightarrow> l1 | Some v \<Rightarrow> l1\<lparr>l_reb := \<lparr>le_p = nm, le_v = v\<rparr>\<rparr>)
      in (case ld_assists ld of None \<Rightarrow> l2 | Some v \<Rightarrow> l2\<lparr>l_ast := \<lparr>le_p = nm, le_v = v\<rparr>\<rparr>))"

definition team_leaders :: "raw_game \<Rightarrow> raw_team \<Rightarrow> leaders" where
  "team_leaders g t =
     (let l0 = \<lparr>l_pts = default_leader, l_reb = default_leader, l_ast = default_leader\<rparr>;
          home = dict_get empty_team (g_homeTeam g)
      in case g_gameLeaders g of
           None \<Rightarrow> l0
         | Some gl \<Rightarrow>
             (case (if t = home then gl_homeLeaders gl else gl_awayLeaders gl) of
                None \<Rightarrow> l0
              | Some ld \<Rightarrow> side_update ld l0))"

definition team_splits :: "raw_statistics \<Rightarrow> pyerr + splits" where
  "team_splits stats =
     (case pct (dict_get 0 (s_fieldGoalsMade stats)) (dict_get 0 (s_fieldGoalsAttempted stats)) of
        Inl e \<Rightarrow> Inl e
      | Inr fg \<Rightarrow>
          (case pct (dict_get 0 (s_threePointersMade stats)) (dict_get 0 (s_threePointersAttempted stats)) of
             Inl e \<Rightarrow> Inl e
           | Inr tp \<Rightarrow>
               (case pct (dict_get 0 (s_freeThrowsMade stats)) (dict_get 0 (s_freeThrowsAttempted stats)) of
                  Inl e \<Rightarrow> Inl e
                | Inr ft \<Rightarrow> Inr \<lparr>sp_fg = fg, sp_tp = tp, sp_ft = ft\<rparr>)))"

definition parse_team :: "raw_game \<Rightarrow> raw_team \<Rightarrow> pyerr + team_box" where
  "parse_team g t =
     (case team_splits (dict_get empty_statistics (t_statistics t)) of
        Inl e \<Rightarrow> Inl e
      | Inr sp \<Rightarrow>
          (case parse_players (dict_get [] (t_players t)) of
             Inl e \<Rightarrow> Inl e
           | Inr pl \<Rightarrow>
               Inr \<lparr>b_abbr = dict_get ''???'' (t_teamTricode t),
                    b_city = dict_get [] (t_teamCity t),
                    b_name = dict_get [] (t_teamName t),
                    b_record = made_att (dict_get 0 (t_wins t)) (dict_get 0 (t_losses t)),
                    b_score = dict_get 0 (t_score t),
                    b_quarters = team_quarters (t_periods t),
                    b_leaders = team_leaders g t,
                    b_splits = sp,
                    b_players = pl\<rparr>))"

section \<open>Status, period label and clock of a game (fetch\_games)\<close>

text \<open>
  \<^verbatim>\<open>
  clock_str = g.get("gameClock", "").replace("PT", "").replace("M", ":").replace("S", "").strip()
  if clock_str and clock_str != "":
      try:
          parts = clock_str.split(":")
          mins = int(float(parts[0])) if parts[0] else 0
          secs = int(float(parts[1])) if len(parts) > 1 and parts[1] else 0
          clock = f"{mins}:{secs:02d}"
      except:
          clock = clock_str
  else:
      clock = "0:00"
  \<close>
\<close>

definition clock_token :: "string \<Rightarrow> string" where
  "clock_token raw = py_strip (py_replace ''S'' [] (py_replace ''M'' '':'' (py_replace ''PT'' [] raw)))"

definition clock_mins :: "string list \<Rightarrow> pyerr + int" where
  "clock_mins parts =
     (case parts of
        [] \<Rightarrow> Inl ValueError
      | p0 # ps \<Rightarrow> if p0 \<noteq> [] then int_float_of_str p0 else Inr 0)"

definition clock_secs :: "string list \<Rightarrow> pyerr + int" where
  "clock_secs parts =
     (if 1 < length parts \<and> parts ! 1 \<noteq> [] then int_float_of_str (parts ! 1) else Inr 0)"

definition live_clock :: "string \<Rightarrow> string" where
  "live_clock raw =
     (let clock_str = clock_token raw
      in if clock_str \<noteq> []
         then (let parts = py_split (CHR '':'') clock_str
               in case clock_mins parts of
                    Inl e \<Rightarrow> clock_str
                  | Inr mins \<Rightarrow>
                      (case clock_secs parts of
                         Inl e \<Rightarrow> clock_str
                       | Inr secs \<Rightarrow> str_int mins @ '':'' @ fmt_02d secs))
         else ''0:00'')"

text \<open>
  \<^verbatim>\<open>
  ordinal = lambda n: f"{n}{'th' if 11<=n<=13 else {1:'st',2:'nd',3:'rd'}.get(n%10,'th')}"
  period_str = f"{ordinal(period)} Qtr" if period <= 4 else f"OT{period-4}" if period > 4 else ""
  \<close>
  Python's \<open>%\<close> with a positive modulus is \<open>mod\<close> on \<open>int\<close>.
\<close>

definition ordinal :: "int \<Rightarrow> string" where
  "ordinal n =
     str_int n @ (if 11 \<le> n \<and> n \<le> 13 then ''th''
                  else if n mod 10 = 1 then ''st''
                  else if n mod 10 = 2 then ''nd''
                  else if n mod 10 = 3 then ''rd''
                  else ''th'')"

definition live_period :: "int \<Rightarrow> string" where
  "live_period period =
     (if period \<le> 4 then ordinal period @ '' Qtr''
      else if 4 < period then ''OT'' @ str_int (period - 4) else [])"

definition final_period :: "int \<Rightarrow> string" where
  "final_period period = (if period \<le> 4 then ''Final'' else ''Final/OT'' @ str_int (period - 4))"

text \<open>The triple \<open>(status, period_str, clock)\<close> of one game.\<close>

definition game_status :: "raw_game \<Rightarrow> string \<times> string \<times> string" where
  "game_status g =
     (let status_num = dict_get 1 (g_gameStatus g);
          status_text = py_strip (dict_get [] (g_gameStatusText g));
          period = dict_get 0 (g_period g)
      in if status_num = 1 then (''upcoming'', status_text, [])
         else if status_num = 2
         then (''live'', live_period period, live_clock (dict_get [] (g_gameClock g)))
         else (''final'', final_period period, []))"

record game =
  gm_id :: string
  gm_status :: string
  gm_period :: string
  gm_clock :: string
  gm_arena :: string
  gm_away :: team_box
  gm_home :: team_box

text \<open>The body of \<open>for g in games\<close>: the dictionary appended to \<open>result\<close>.\<close>

definition normalize_game :: "raw_game \<Rightarrow> pyerr + game" where
  "normalize_game g =
     (let home = dict_get empty_team (g_homeTeam g);
          away = dict_get empty_team (g_awayTeam g);
          (status, period_str, clock) = game_status g
      in case parse_team g away of
           Inl e \<Rightarrow> Inl e
         | Inr a \<Rightarrow>
             (case parse_team g home of
                Inl e \<Rightarrow> Inl e
              | Inr h \<Rightarrow>
                  Inr \<lparr>gm_id = dict_get [] (g_gameId g), gm_status = status, gm_period = period_str,
                       gm_clock = clock, gm_arena = dict_get [] (g_arenaName g),
                       gm_away = a, gm_home = h\<rparr>))"

text \<open>
  \<open>fetch_games\<close> on the list of games of the scoreboard: any exception makes it return
  \<open>None\<close>.
\<close>

fun fetch_games :: "raw_game list \<Rightarrow> game list option" where
  "fetch_games [] = Some []"
| "fetch_games (g # gs) =
     (case normalize_game g of
        Inl e \<Rightarrow> None
      | Inr x \<Rightarrow> map_option ((#) x) (fetch_games gs))"

section \<open>Headlines (fetch\_headlines)\<close>

text \<open>
  \<^verbatim>\<open>
  for a in articles[:CFG["hoopshype_ticker"]["max_headlines"]]:
      text = a.get_text(strip=True)
      if text and len(text) > 15:  # Skip very short items
          headlines.append({
              "t": text,
              "b": "new" if len(headlines) < 3 else "rumor",
              "url": a.get("href", ""),
          })
  \<close>
  An extracted link is its stripped text and its \<open>href\<close> attribute, if it has one.
\<close>

record article =
  a_text :: string
  a_href :: "string option"

record headline =
  h_t :: string
  h_b :: string
  h_url :: string

text \<open>\<open>xs[:n]\<close>: a negative \<open>n\<close> counts from the end.\<close>

definition py_slice_to :: "int \<Rightarrow> 'a list \<Rightarrow> 'a list" where
  "py_slice_to n xs = (if 0 \<le> n then take (nat n) xs else take (length xs - nat (- n)) xs)"

fun headlines_loop :: "article list \<Rightarrow> headline list \<Rightarrow> headline list" where
  "headlines_loop [] headlines = headlines"
| "headlines_loop (a # as) headlines =
     headlines_loop as
       (if a_text a \<noteq> [] \<and> 15 < length (a_text a)
        then headlines @ [\<lparr>h_t = a_text a,
                           h_b = (if length headlines < 3 then ''new'' else ''rumor''),
                           h_url = dict_get [] (a_href a)\<rparr>]
        else headlines)"

definition select_headlines :: "int \<Rightarrow> article list \<Rightarrow> headline list" where
  "select_headlines max_headlines articles = headlines_loop (py_slice_to max_headlines articles) []"

section \<open>The cache and its refresh (refresh\_loop, api\_games, api\_headlines)\<close>

datatype payload = GamesData "game list" | HeadlinesData "headline list"

fun payload_len :: "payload \<Rightarrow> nat" where
  "payload_len (GamesData gs) = length gs"
| "payload_len (HeadlinesData hs) = length hs"

text \<open>An entry \<open>{"data": ..., "updated": ...}\<close>; the time is in seconds.\<close>

record cache_entry =
  data :: payload
  updated :: rat

type_synonym cache = "string \<rightharpoonup> cache_entry"

definition cache_init :: cache where
  "cache_init = [''games'' \<mapsto> \<lparr>data = GamesData [], updated = 0\<rparr>,
                 ''headlines'' \<mapsto> \<lparr>data = HeadlinesData [], updated = 0\<rparr>]"

text \<open>What one call \<open>fetch_fn()\<close> does: it raises, or it returns \<open>None\<close> or a value.\<close>

datatype fetch_outcome = Raises | Returns "payload option"

text \<open>
  \<^verbatim>\<open>
  try:
      data = fetch_fn()
      if data is not None:
          with cache_lock:
              cache[key]["data"] = data
              cache[key]["updated"] = time.time()
  except Exception as e:
      log.error(f"Refresh error [{key}]: {e}")
  time.sleep(interval_sec)
  \<close>
  One pass of \<open>while True\<close>, with the outcome of the fetch and the clock's reading \<open>now\<close>.
  A key that the cache does not hold raises \<open>KeyError\<close> at the first assignment, which
  the \<open>except\<close> catches.
\<close>

definition refresh_cycle :: "string \<Rightarrow> fetch_outcome \<Rightarrow> rat \<Rightarrow> cache \<Rightarrow> cache" where
  "refresh_cycle key outcome now c =
     (case outcome of
        Raises \<Rightarrow> c
      | Returns None \<Rightarrow> c
      | Returns (Some d) \<Rightarrow>
          (case c key of
             None \<Rightarrow> c
           | Some e \<Rightarrow> c(key \<mapsto> e\<lparr>data := d, updated := now\<rparr>)))"

text \<open>The first \<open>length evs\<close> passes of the loop.\<close>

fun refresh_loop :: "string \<Rightarrow> (fetch_outcome \<times> rat) list \<Rightarrow> cache \<Rightarrow> cache" where
  "refresh_loop key [] c = c"
| "refresh_loop key ((outcome, now) # evs) c = refresh_loop key evs (refresh_cycle key outcome now c)"

text \<open>
  The bodies of \<open>api_games\<close> and \<open>api_headlines\<close>: the three fields of the response. They
  index the cache with a key that it always holds.
\<close>

record response =
  r_data :: payload
  r_updated :: rat
  r_count :: nat

definition read_snapshot :: "string \<Rightarrow> cache \<Rightarrow> response option" where
  "read_snapshot key c =
     (case c key of
        None \<Rightarrow> None
      | Some e \<Rightarrow> Some \<lparr>r_data = data e, r_updated = updated e, r_count = payload_len (data e)\<rparr>)"

definition api_games :: "cache \<Rightarrow> response option" where
  "api_games c = read_snapshot ''games'' c"

definition api_headlines :: "cache \<Rightarrow> response option" where
  "api_headlines c = read_snapshot ''headlines'' c"

section \<open>Notions used in the statements\<close>

text \<open>
  The minutes and the line of a player who played; \<open>stat key p\<close> is \<open>stats.get(key, 0)\<close> of
  the player's statistics.
\<close>

definition minutes_of :: "raw_player \<Rightarrow> int" where
  "minutes_of p = (case parse_minutes (player_minutes p) of Inl e \<Rightarrow> 0 | Inr m \<Rightarrow> m)"

definition line_of :: "raw_player \<Rightarrow> player_line" where
  "line_of p = player_obj p (minutes_of p)"

definition plays :: "raw_player \<Rightarrow> bool" where
  "plays p \<longleftrightarrow> \<not> not_playing p"

definition stat :: "(raw_statistics \<Rightarrow> int option) \<Rightarrow> raw_player \<Rightarrow> int" where
  "stat key p = dict_get 0 (key (dict_get empty_statistics (p_statistics p)))"

text \<open>
  The condition for a DNP entry in terms of the keys of the record: a status that is
  present and is not \<open>ACTIVE\<close>, or a played flag that is present and is \<open>0\<close>.
\<close>

definition goes_to_dnp :: "raw_player \<Rightarrow> bool" where
  "goes_to_dnp p \<longleftrightarrow> (\<exists>s. p_status p = Some s \<and> s \<noteq> ''ACTIVE'') \<or> p_played p = Some ''0''"

definition long_text :: "article \<Rightarrow> bool" where
  "long_text a \<longleftrightarrow> 15 < length (a_text a)"

text \<open>The headlines of a list of selected links, the first of which is the \<open>k\<close>-th selected.\<close>

fun tag_from :: "nat \<Rightarrow> article list \<Rightarrow> headline list" where
  "tag_from k [] = []"
| "tag_from k (a # as) =
     \<lparr>h_t = a_text a, h_b = (if k < 3 then ''new'' else ''rumor''), h_url = dict_get [] (a_href a)\<rparr>
     # tag_from (Suc k) as"

text \<open>
  The selection in the words of the specification: the candidates with a text of more than
  15 characters, up to the maximum count of selected ones.
\<close>

definition claimed_selection :: "int \<Rightarrow> article list \<Rightarrow> article list" where
  "claimed_selection max_headlines articles = py_slice_to max_headlines (filter long_text articles)"

subsection \<open>Example inputs\<close>

definition ex_articles :: "article list" where
  "ex_articles = [\<lparr>a_text = ''Trade talks'', a_href = None\<rparr>,
                  \<lparr>a_text = ''Star guard signs a new extension'', a_href = Some ''/rumors/1''\<rparr>]"

definition ex_five :: "article list" where
  "ex_five = map (\<lambda>u. \<lparr>a_text = ''A headline of enough length'', a_href = Some u\<rparr>)
                 [''/1'', ''/2'', ''/3'', ''/4'', ''/5'']"

definition ex_stats :: raw_statistics where
  "ex_stats = empty_statistics\<lparr>s_minutes := Some (VStr ''PT30M''), s_points := Some 10,
                s_fieldGoalsMade := Some 4, s_fieldGoalsAttempted := Some 9\<rparr>"

definition ex_bare :: raw_player where
  "ex_bare = \<lparr>p_statistics = None, p_status = None, p_played = None, p_starter = None,
              p_notPlayingReason = None, p_name = None, p_firstName = None, p_familyName = None,
              p_position = None\<rparr>"

definition ex_players :: "raw_player list" where
  "ex_players = [ex_bare\<lparr>p_statistics := Some ex_stats, p_starter := Some ''1'', p_name := Some ''Jayson Tatum''\<rparr>,
                 ex_bare,
                 ex_bare\<lparr>p_statistics := Some ex_stats, p_played := Some ''0''\<rparr>,
                 ex_bare\<lparr>p_statistics := Some ex_stats, p_status := Some ''INACTIVE''\<rparr>]"

definition ex_team :: raw_team where
  "ex_team = empty_team\<lparr>t_periods := Some (map (\<lambda>s. \<lparr>pd_score = Some s\<rparr>) [31, 28, 25, 30, 12, 9, 7])\<rparr>"

definition ex_game :: raw_game where
  "ex_game = \<lparr>g_gameId = Some ''0022300001'', g_gameStatus = Some 2, g_gameStatusText = Some ''Q2 5:30'',
              g_period = Some 2, g_gameClock = Some ''PT05M30.90S'', g_arenaName = None,
              g_homeTeam = Some ex_team, g_awayTeam = None, g_gameLeaders = None\<rparr>"

text \<open>A live game whose payload has no \<open>period\<close> key.\<close>

definition ex_live_no_period :: raw_game where
  "ex_live_no_period = ex_game\<lparr>g_period := None\<rparr>"

section \<open>Properties\<close>

subsection \<open>Rules for evaluating the definitions on concrete inputs\<close>

lemma floor_rat_div_numeral: "\<lfloor>numeral a / numeral b :: rat\<rfloor> = numeral a div numeral b"
  by (metis floor_divide_of_int_eq of_int_numeral)

lemma ceiling_rat_div_numeral: "\<lceil>numeral a / numeral b :: rat\<rceil> = - (- numeral a div numeral b)"
  using ceiling_divide_eq_div [of "numeral a" "numeral b", where ?'a = rat] by simp

lemma floor_rat_inverse_numeral: "\<lfloor>1 / numeral b :: rat\<rfloor> = 1 div numeral b"
  using floor_divide_of_int_eq [of 1 "numeral b", where ?'a = rat] by simp

lemma shortest_digits_unfold:
  "shortest_digits fuel n x =
     (if fuel = 0 then (\<lfloor>x * 10 powi (int n - 1 - ilog 10 x)\<rfloor>, n)
      else (case repr_candidate n x of Some c \<Rightarrow> (c, n) | None \<Rightarrow> shortest_digits (fuel - 1) (Suc n) x))"
  by (cases fuel) (auto split: option.splits)

lemmas float_eval =
  floor_rat_div_numeral ceiling_rat_div_numeral floor_rat_inverse_numeral
  round_double_def ilog_def round_half_even_def compute_floorlog
  int_truediv_def pct_def pct_text_def repr_finite_def repr_candidate_def shortest_digits_unfold
  strip_zeros_def str_int_def str_nat.simps digit_char_def fmt_02d_def made_att_def

lemmas str_eval =
  py_replace.simps py_strip_def is_space_def num_strip_def is_num_space_def
  digit_val_def is_digit_def digits_val_def split_sign_def int_of_str_def ascii_lower_def
  parse_exponent_def parse_decimal_def float_of_str_def int_float_of_str_def dict_get_def

lemmas players_eval =
  parse_players_def player_step_def not_playing_def is_starter_def player_minutes_def
  parse_minutes_str_def minutes_token_def pcts_of_def loop_init_def totals_init_def
  add_totals_def player_obj_def empty_statistics_def Let_def

lemmas game_eval =
  normalize_game_def parse_team_def team_splits_def game_status_def empty_team_def

subsection \<open>The cache\<close>

text \<open>
  C1. When the fetch of a refresh cycle raises or returns \<open>None\<close>, the cycle leaves the cache
  as it was: every entry keeps its data and its timestamp, and a read after the cycle
  returns the response of a read before it. A response has the three fields data,
  updated and count, and none for an error.
\<close>

theorem failed_cycle_keeps_cache:
  assumes "outcome = Raises \<or> outcome = Returns None"
  shows "refresh_cycle key outcome now c = c \<and>
         (\<forall>k e. c k = Some e \<longrightarrow>
            (\<exists>e'. refresh_cycle key outcome now c k = Some e' \<and> data e' = data e \<and> updated e' = updated e)) \<and>
         (\<forall>k. read_snapshot k (refresh_cycle key outcome now c) = read_snapshot k c) \<and>
         api_games (refresh_cycle key outcome now c) = api_games c \<and>
         api_headlines (refresh_cycle key outcome now c) = api_headlines c"
proof -
  from assms have "refresh_cycle key outcome now c = c"
    by (auto simp: refresh_cycle_def)
  then show ?thesis by simp
qed

theorem failed_cycle_keeps_cache_witness:
  "refresh_cycle ''games'' Raises 5 cache_init = cache_init \<and>
   api_games (refresh_cycle ''games'' (Returns None) 5 cache_init) = api_games cache_init"
  using failed_cycle_keeps_cache [of Raises "''games''" 5 cache_init]
        failed_cycle_keeps_cache [of "Returns None" "''games''" 5 cache_init]
  by simp

text \<open>A cycle whose fetch returns a value does replace the entry.\<close>

lemma successful_cycle_writes:
  "c key = Some e \<Longrightarrow>
   refresh_cycle key (Returns (Some d)) now c key = Some \<lparr>data = d, updated = now\<rparr>"
  by (simp add: refresh_cycle_def)

subsection \<open>Players\<close>

lemma player_step_cases:
  assumes "player_step p st = Inr st'"
  shows "st' = (if not_playing p then st\<lparr>st_dnp := st_dnp st @ [dnp_of p]\<rparr>
               else if is_starter p
               then st\<lparr>st_totals := add_totals p (line_of p) (st_totals st),
                       st_starters := st_starters st @ [line_of p]\<rparr>
               else st\<lparr>st_totals := add_totals p (line_of p) (st_totals st),
                       st_bench := st_bench st @ [line_of p]\<rparr>)"
  using assms
  by (auto simp: player_step_def line_of_def minutes_of_def Let_def split: if_splits sum.splits)

lemma players_loop_char:
  assumes "players_loop ps st = Inr st'"
  shows "st_dnp st' = st_dnp st @ map dnp_of (filter not_playing ps) \<and>
         st_starters st' = st_starters st @ map line_of (filter (\<lambda>p. plays p \<and> is_starter p) ps) \<and>
         st_bench st' = st_bench st @ map line_of (filter (\<lambda>p. plays p \<and> \<not> is_starter p) ps) \<and>
         st_totals st' = foldl (\<lambda>t p. add_totals p (line_of p) t) (st_totals st) (filter plays ps)"
  using assms
proof (induction ps arbitrary: st)
  case Nil
  then show ?case by simp
next
  case (Cons p ps)
  from Cons.prems obtain st1 where s1: "player_step p st = Inr st1" and l1: "players_loop ps st1 = Inr st'"
    by (auto split: sum.splits)
  note ih = Cons.IH [OF l1]
  note c = player_step_cases [OF s1]
  show ?case
  proof (cases "not_playing p")
    case True
    with c ih show ?thesis by (simp add: plays_def)
  next
    case False
    with c ih show ?thesis by (cases "is_starter p") (simp_all add: plays_def)
  qed
qed

lemma foldl_add_totals:
  "foldl (\<lambda>t p. add_totals p (line_of p) t) t0 ps =
     \<lparr>a_min = a_min t0 + sum_list (map minutes_of ps),
      a_pts = a_pts t0 + sum_list (map (stat s_points) ps),
      a_fg = (fst (a_fg t0) + sum_list (map (stat s_fieldGoalsMade) ps),
              snd (a_fg t0) + sum_list (map (stat s_fieldGoalsAttempted) ps)),
      a_tp = (fst (a_tp t0) + sum_list (map (stat s_threePointersMade) ps),
              snd (a_tp t0) + sum_list (map (stat s_threePointersAttempted) ps)),
      a_ft = (fst (a_ft t0) + sum_list (map (stat s_freeThrowsMade) ps),
              snd (a_ft t0) + sum_list (map (stat s_freeThrowsAttempted) ps)),
      a_or = a_or t0 + sum_list (map (stat s_reboundsOffensive) ps),
      a_dr = a_dr t0 + sum_list (map (stat s_reboundsDefensive) ps),
      a_reb = a_reb t0 + sum_list (map (stat s_reboundsTotal) ps),
      a_ast = a_ast t0 + sum_list (map (stat s_assists) ps),
      a_stl = a_stl t0 + sum_list (map (stat s_steals) ps),
      a_blk = a_blk t0 + sum_list (map (stat s_blocks) ps),
      a_to = a_to t0 + sum_list (map (stat s_turnovers) ps),
      a_pf = a_pf t0 + sum_list (map (stat s_foulsPersonal) ps)\<rparr>"
proof (induction ps arbitrary: t0)
  case Nil
  show ?case by simp
next
  case (Cons p ps)
  have "foldl (\<lambda>t p. add_totals p (line_of p) t) t0 (p # ps) =
        foldl (\<lambda>t p. add_totals p (line_of p) t) (add_totals p (line_of p) t0) ps"
    by simp
  also note Cons.IH
  finally show ?case
    by (simp add: add_totals_def line_of_def player_obj_def stat_def Let_def add.assoc)
qed

lemma sum_list_starters_bench:
  fixes f :: "raw_player \<Rightarrow> int"
  shows "sum_list (map f (filter (\<lambda>p. plays p \<and> is_starter p) ps)) +
         sum_list (map f (filter (\<lambda>p. plays p \<and> \<not> is_starter p) ps)) =
         sum_list (map f (filter plays ps))"
  by (induction ps) simp_all

lemma not_playing_iff: "not_playing p \<longleftrightarrow> goes_to_dnp p"
  by (cases "p_status p"; cases "p_played p") (auto simp: not_playing_def goes_to_dnp_def dict_get_def)

lemma is_starter_iff: "is_starter p \<longleftrightarrow> p_starter p = Some ''1''"
  by (cases "p_starter p") (auto simp: is_starter_def dict_get_def)

lemma parse_players_Inr:
  assumes "parse_players ps = Inr sec"
  obtains st pc where "players_loop ps loop_init = Inr st" and "pcts_of (st_totals st) = Inr pc"
    and "sec = \<lparr>ps_starters = st_starters st, ps_bench = st_bench st, ps_dnp = st_dnp st,
                ps_totals = totals_formatted (st_totals st), ps_pcts = pc\<rparr>"
  using assms by (auto simp: parse_players_def split: sum.splits)

lemma ex_players_parsed: "\<not> isl (parse_players ex_players)"
  by (simp add: ex_players_def ex_bare_def ex_stats_def players_eval str_eval float_eval)

text \<open>
  C10. The three flags of a player record are read with defaults: a record goes to dnp
  exactly when its status is present and differs from \<open>ACTIVE\<close> or its played flag is present
  and equals \<open>0\<close>; of the others, those whose starter flag is \<open>1\<close> are the starters and the
  rest, a missing flag included, are the bench. A record with none of the three flags is
  therefore an active bench player. Each list keeps the order of the input.
\<close>

theorem classification_defaults:
  assumes "parse_players ps = Inr sec"
  shows "ps_dnp sec = map dnp_of (filter goes_to_dnp ps) \<and>
         ps_starters sec = map line_of (filter (\<lambda>p. \<not> goes_to_dnp p \<and> p_starter p = Some ''1'') ps) \<and>
         ps_bench sec = map line_of (filter (\<lambda>p. \<not> goes_to_dnp p \<and> p_starter p \<noteq> Some ''1'') ps) \<and>
         (\<forall>p \<in> set ps. p_status p = None \<and> p_played p = None \<and> p_starter p = None \<longrightarrow>
            \<not> goes_to_dnp p \<and> line_of p \<in> set (ps_bench sec))"
proof -
  from assms obtain st pc where l: "players_loop ps loop_init = Inr st"
    and sec: "sec = \<lparr>ps_starters = st_starters st, ps_bench = st_bench st, ps_dnp = st_dnp st,
                ps_totals = totals_formatted (st_totals st), ps_pcts = pc\<rparr>"
    by (rule parse_players_Inr)
  have np: "not_playing = goes_to_dnp"
    by (rule ext) (simp add: not_playing_iff)
  have a: "(\<lambda>p. plays p \<and> is_starter p) = (\<lambda>p. \<not> goes_to_dnp p \<and> p_starter p = Some ''1'')"
    by (rule ext) (simp add: plays_def np is_starter_iff)
  have b: "(\<lambda>p. plays p \<and> \<not> is_starter p) = (\<lambda>p. \<not> goes_to_dnp p \<and> p_starter p \<noteq> Some ''1'')"
    by (rule ext) (simp add: plays_def np is_starter_iff)
  from players_loop_char [OF l]
  have d: "ps_dnp sec = map dnp_of (filter goes_to_dnp ps)"
    and s: "ps_starters sec = map line_of (filter (\<lambda>p. \<not> goes_to_dnp p \<and> p_starter p = Some ''1'') ps)"
    and be: "ps_bench sec = map line_of (filter (\<lambda>p. \<not> goes_to_dnp p \<and> p_starter p \<noteq> Some ''1'') ps)"
    by (simp_all add: sec loop_init_def np a b)
  have "\<forall>p \<in> set ps. p_status p = None \<and> p_played p = None \<and> p_starter p = None \<longrightarrow>
            \<not> goes_to_dnp p \<and> line_of p \<in> set (ps_bench sec)"
    by (auto simp: be goes_to_dnp_def)
  with d s be show ?thesis by blast
qed

theorem classification_defaults_witness:
  "\<exists>sec. parse_players ex_players = Inr sec \<and>
         length (ps_starters sec) = 1 \<and> ps_bench sec = [line_of ex_bare] \<and> length (ps_dnp sec) = 2"
proof -
  from ex_players_parsed obtain sec where e: "parse_players ex_players = Inr sec"
    by (cases "parse_players ex_players") auto
  from classification_defaults [OF e]
  have "length (ps_starters sec) = 1 \<and> ps_bench sec = [line_of ex_bare] \<and> length (ps_dnp sec) = 2"
    by (simp add: ex_players_def ex_bare_def goes_to_dnp_def)
  with e show ?thesis by blast
qed

text \<open>
  C6. In the section that player parsing returns, the minutes of the totals are the sum of
  the minutes of the lines of the starters and the bench, and so are the points; the made
  and attempted counts of the totals for fg, tp and ft are the sums of the players' counts
  over the players who played (the DNP entries are not counted); and each percentage of
  pcts is the percentage of these two sums, followed by \<open>%\<close>.
\<close>

theorem totals_are_sums:
  assumes "parse_players ps = Inr sec"
  shows "tot_min (ps_totals sec) = sum_list (map pl_min (ps_starters sec @ ps_bench sec)) \<and>
         tot_pts (ps_totals sec) = sum_list (map pl_pts (ps_starters sec @ ps_bench sec)) \<and>
         tot_fg (ps_totals sec) =
           made_att (sum_list (map (stat s_fieldGoalsMade) (filter plays ps)))
                    (sum_list (map (stat s_fieldGoalsAttempted) (filter plays ps))) \<and>
         tot_tp (ps_totals sec) =
           made_att (sum_list (map (stat s_threePointersMade) (filter plays ps)))
                    (sum_list (map (stat s_threePointersAttempted) (filter plays ps))) \<and>
         tot_ft (ps_totals sec) =
           made_att (sum_list (map (stat s_freeThrowsMade) (filter plays ps)))
                    (sum_list (map (stat s_freeThrowsAttempted) (filter plays ps))) \<and>
         pct_text (sum_list (map (stat s_fieldGoalsMade) (filter plays ps)),
                   sum_list (map (stat s_fieldGoalsAttempted) (filter plays ps))) = Inr (pc_fg (ps_pcts sec)) \<and>
         pct_text (sum_list (map (stat s_threePointersMade) (filter plays ps)),
                   sum_list (map (stat s_threePointersAttempted) (filter plays ps))) = Inr (pc_tp (ps_pcts sec)) \<and>
         pct_text (sum_list (map (stat s_freeThrowsMade) (filter plays ps)),
                   sum_list (map (stat s_freeThrowsAttempted) (filter plays ps))) = Inr (pc_ft (ps_pcts sec))"
proof -
  from assms obtain st pc where l: "players_loop ps loop_init = Inr st"
    and pc: "pcts_of (st_totals st) = Inr pc"
    and sec: "sec = \<lparr>ps_starters = st_starters st, ps_bench = st_bench st, ps_dnp = st_dnp st,
                ps_totals = totals_formatted (st_totals st), ps_pcts = pc\<rparr>"
    by (rule parse_players_Inr)
  note ch = players_loop_char [OF l]
  have tot: "st_totals st = foldl (\<lambda>t p. add_totals p (line_of p) t) totals_init (filter plays ps)"
    using ch by (simp add: loop_init_def)
  have lm: "pl_min \<circ> line_of = minutes_of" and lp: "pl_pts \<circ> line_of = stat s_points"
    by (rule ext, simp add: line_of_def player_obj_def Let_def stat_def)+
  have m: "a_min (st_totals st) = sum_list (map minutes_of (filter plays ps))"
    and p: "a_pts (st_totals st) = sum_list (map (stat s_points) (filter plays ps))"
    and fg: "a_fg (st_totals st) = (sum_list (map (stat s_fieldGoalsMade) (filter plays ps)),
                                   sum_list (map (stat s_fieldGoalsAttempted) (filter plays ps)))"
    and tp: "a_tp (st_totals st) = (sum_list (map (stat s_threePointersMade) (filter plays ps)),
                                   sum_list (map (stat s_threePointersAttempted) (filter plays ps)))"
    and ft: "a_ft (st_totals st) = (sum_list (map (stat s_freeThrowsMade) (filter plays ps)),
                                   sum_list (map (stat s_freeThrowsAttempted) (filter plays ps)))"
    by (simp_all add: tot foldl_add_totals totals_init_def)
  have sb: "ps_starters sec @ ps_bench sec =
            map line_of (filter (\<lambda>p. plays p \<and> is_starter p) ps) @
            map line_of (filter (\<lambda>p. plays p \<and> \<not> is_starter p) ps)"
    using ch by (simp add: sec loop_init_def)
  have c1: "tot_min (ps_totals sec) = sum_list (map pl_min (ps_starters sec @ ps_bench sec))"
    unfolding sb by (simp add: sec totals_formatted_def m lm sum_list_starters_bench)
  have c2: "tot_pts (ps_totals sec) = sum_list (map pl_pts (ps_starters sec @ ps_bench sec))"
    unfolding sb by (simp add: sec totals_formatted_def p lp sum_list_starters_bench)
  have c3: "tot_fg (ps_totals sec) =
           made_att (sum_list (map (stat s_fieldGoalsMade) (filter plays ps)))
                    (sum_list (map (stat s_fieldGoalsAttempted) (filter plays ps)))"
    by (simp add: sec totals_formatted_def fg)
  have c4: "tot_tp (ps_totals sec) =
           made_att (sum_list (map (stat s_threePointersMade) (filter plays ps)))
                    (sum_list (map (stat s_threePointersAttempted) (filter plays ps)))"
    by (simp add: sec totals_formatted_def tp)
  have c5: "tot_ft (ps_totals sec) =
           made_att (sum_list (map (stat s_freeThrowsMade) (filter plays ps)))
                    (sum_list (map (stat s_freeThrowsAttempted) (filter plays ps)))"
    by (simp add: sec totals_formatted_def ft)
  from pc have c6: "pct_text (a_fg (st_totals st)) = Inr (pc_fg (ps_pcts sec))"
    and c7: "pct_text (a_tp (st_totals st)) = Inr (pc_tp (ps_pcts sec))"
    and c8: "pct_text (a_ft (st_totals st)) = Inr (pc_ft (ps_pcts sec))"
    by (auto simp: pcts_of_def sec split: sum.splits)
  from c1 c2 c3 c4 c5 c6 c7 c8 show ?thesis
    by (simp only: fg tp ft)
qed

theorem totals_are_sums_witness:
  "\<exists>sec. parse_players ex_players = Inr sec \<and>
         tot_min (ps_totals sec) = sum_list (map pl_min (ps_starters sec @ ps_bench sec)) \<and>
         tot_fg (ps_totals sec) = ''4-9'' \<and> pc_fg (ps_pcts sec) = ''44.4%''"
proof -
  from ex_players_parsed obtain sec where e: "parse_players ex_players = Inr sec"
    by (cases "parse_players ex_players") auto
  have f: "filter plays ex_players = [ex_bare\<lparr>p_statistics := Some ex_stats, p_starter := Some ''1'', p_name := Some ''Jayson Tatum''\<rparr>, ex_bare]"
    by (simp add: ex_players_def ex_bare_def plays_def not_playing_def dict_get_def)
  have s: "sum_list (map (stat s_fieldGoalsMade) (filter plays ex_players)) = 4"
      "sum_list (map (stat s_fieldGoalsAttempted) (filter plays ex_players)) = 9"
    by (simp_all add: f stat_def ex_bare_def ex_stats_def empty_statistics_def dict_get_def)
  have m: "made_att 4 9 = ''4-9''"
    by (simp add: float_eval)
  have t: "pct_text (4, 9) = Inr ''44.4%''"
    by (simp add: float_eval)
  from totals_are_sums [OF e] have
    "tot_min (ps_totals sec) = sum_list (map pl_min (ps_starters sec @ ps_bench sec))"
    "tot_fg (ps_totals sec) = ''4-9''" "pc_fg (ps_pcts sec) = ''44.4%''"
    by (simp_all add: s m t)
  with e show ?thesis by blast
qed

subsection \<open>Headlines\<close>

lemma headlines_loop_eq:
  "headlines_loop as acc = acc @ tag_from (length acc) (filter long_text as)"
proof (induction as arbitrary: acc)
  case Nil
  show ?case by simp
next
  case (Cons a as)
  show ?case
  proof (cases "long_text a")
    case True
    then have "a_text a \<noteq> []" by (auto simp: long_text_def)
    with True show ?thesis by (simp add: Cons.IH long_text_def)
  next
    case False
    then show ?thesis by (simp add: Cons.IH long_text_def)
  qed
qed

lemma length_tag_from: "length (tag_from k as) = length as"
  by (induction as arbitrary: k) simp_all

lemma nth_tag_from:
  "i < length as \<Longrightarrow>
   tag_from k as ! i =
     \<lparr>h_t = a_text (as ! i), h_b = (if k + i < 3 then ''new'' else ''rumor''),
      h_url = dict_get [] (a_href (as ! i))\<rparr>"
proof (induction as arbitrary: k i)
  case Nil
  then show ?case by simp
next
  case (Cons a as)
  show ?case
  proof (cases i)
    case 0
    then show ?thesis by simp
  next
    case (Suc j)
    with Cons.prems have "j < length as" by simp
    from Cons.IH [OF this, of "Suc k"] Suc show ?thesis by simp
  qed
qed

text \<open>
  C4, as amended. The selector looks at the first \<open>max_headlines\<close> candidates only and
  selects those of them whose text is longer than 15 characters, in order; the first three
  selected are tagged \<open>new\<close> and every later one \<open>rumor\<close>. For five candidates, all longer than
  15 characters, and a maximum of at least five, the tags are new, new, new, rumor, rumor.
\<close>

theorem headlines_selected_and_tagged:
  "length (select_headlines m arts) = length (filter long_text (py_slice_to m arts)) \<and>
   (\<forall>i < length (filter long_text (py_slice_to m arts)).
      h_t (select_headlines m arts ! i) = a_text (filter long_text (py_slice_to m arts) ! i) \<and>
      h_url (select_headlines m arts ! i) = dict_get [] (a_href (filter long_text (py_slice_to m arts) ! i)) \<and>
      h_b (select_headlines m arts ! i) = (if i < 3 then ''new'' else ''rumor'')) \<and>
   (length arts = 5 \<and> (\<forall>a \<in> set arts. 15 < length (a_text a)) \<and> 5 \<le> m \<longrightarrow>
      map h_b (select_headlines m arts) = [''new'', ''new'', ''new'', ''rumor'', ''rumor''])"
proof -
  let ?sel = "filter long_text (py_slice_to m arts)"
  have eq: "select_headlines m arts = tag_from 0 ?sel"
    by (simp add: select_headlines_def headlines_loop_eq)
  have a: "length (select_headlines m arts) = length ?sel"
    by (simp add: eq length_tag_from)
  have b: "\<forall>i < length ?sel.
      h_t (select_headlines m arts ! i) = a_text (?sel ! i) \<and>
      h_url (select_headlines m arts ! i) = dict_get [] (a_href (?sel ! i)) \<and>
      h_b (select_headlines m arts ! i) = (if i < 3 then ''new'' else ''rumor'')"
    by (simp add: eq nth_tag_from)
  have c: "map h_b (select_headlines m arts) = [''new'', ''new'', ''new'', ''rumor'', ''rumor'']"
    if len: "length arts = 5" and all: "\<forall>a \<in> set arts. 15 < length (a_text a)" and m: "5 \<le> m"
  proof -
    from len m have "py_slice_to m arts = arts"
      by (simp add: py_slice_to_def)
    moreover from all have "filter long_text arts = arts"
      by (simp add: long_text_def)
    ultimately have s: "?sel = arts" by simp
    from len obtain a1 a2 a3 a4 a5 where "arts = [a1, a2, a3, a4, a5]"
      by (auto simp: length_Suc_conv eval_nat_numeral)
    with s eq show ?thesis by simp
  qed
  from a b c show ?thesis by blast
qed

theorem headlines_selected_and_tagged_witness:
  "map h_b (select_headlines 10 ex_five) = [''new'', ''new'', ''new'', ''rumor'', ''rumor''] \<and>
   h_t (select_headlines 10 ex_five ! 0) = ''A headline of enough length''"
  using headlines_selected_and_tagged [of 10 ex_five]
  by (simp add: ex_five_def py_slice_to_def long_text_def)

text \<open>
  The claim as stated fails: with a maximum of 1 and a short candidate before a long one,
  the code selects nothing, where the candidates longer than 15 characters, up to one of
  them, are the second candidate.
\<close>

theorem headlines_claim_counterexample:
  "map h_t (select_headlines 1 ex_articles) = [] \<and>
   map a_text (claimed_selection 1 ex_articles) = [''Star guard signs a new extension'']"
  by (simp add: select_headlines_def claimed_selection_def py_slice_to_def ex_articles_def long_text_def)

subsection \<open>Quarters\<close>

lemma pad_quarters_eq: "pad_quarters qs = qs @ replicate (4 - length qs) 0"
proof (induction qs rule: pad_quarters.induct)
  case (1 quarters)
  show ?case
  proof (cases "length quarters < 4")
    case True
    then have "pad_quarters quarters = pad_quarters (quarters @ [0])"
      by (subst pad_quarters.simps) simp
    also have "\<dots> = (quarters @ [0]) @ replicate (4 - length (quarters @ [0])) 0"
      using True by (rule "1.IH")
    also have "\<dots> = quarters @ replicate (Suc (3 - length quarters)) 0"
      by simp
    also have "Suc (3 - length quarters) = 4 - length quarters"
      using True by simp
    finally show ?thesis .
  next
    case False
    then show ?thesis by (subst pad_quarters.simps) simp
  qed
qed

lemma team_quarters_eq:
  "team_quarters ps =
     take 4 (map (\<lambda>p. dict_get 0 (pd_score p)) (dict_get [] ps) @ replicate (4 - length (dict_get [] ps)) 0)"
  by (cases "dict_get [] ps = []") (simp_all add: team_quarters_def Let_def pad_quarters_eq)

lemma parse_team_quarters:
  "parse_team g t = Inr b \<Longrightarrow> b_quarters b = team_quarters (t_periods t)"
  by (auto simp: parse_team_def split: sum.splits)

lemma ex_team_parsed: "\<not> isl (parse_team ex_game ex_team)"
  by (simp add: ex_team_def game_eval players_eval str_eval float_eval)

text \<open>
  C5. For each side, the quarters array of the team in the normalized game has length
  exactly 4: the period scores in order (a missing score counted as 0), right-padded with
  0 up to four entries, and cut to the first four when there are more periods.
\<close>

theorem quarters_length_four:
  assumes "parse_team g t = Inr b"
  shows "length (b_quarters b) = 4 \<and>
         b_quarters b =
           take 4 (map (\<lambda>p. dict_get 0 (pd_score p)) (dict_get [] (t_periods t))
                   @ replicate (4 - length (dict_get [] (t_periods t))) 0)"
proof -
  from assms have "b_quarters b = team_quarters (t_periods t)"
    by (rule parse_team_quarters)
  then show ?thesis by (simp add: team_quarters_eq)
qed

theorem quarters_length_four_witness:
  "\<exists>b. parse_team ex_game ex_team = Inr b \<and> length (b_quarters b) = 4 \<and> b_quarters b = [31, 28, 25, 30]"
proof -
  from ex_team_parsed obtain b where e: "parse_team ex_game ex_team = Inr b"
    by (cases "parse_team ex_game ex_team") auto
  from quarters_length_four [OF e] have "length (b_quarters b) = 4 \<and> b_quarters b = [31, 28, 25, 30]"
    by (simp add: ex_team_def empty_team_def dict_get_def)
  with e show ?thesis by blast
qed

text \<open>The same for no period, one period and five periods.\<close>

lemma team_quarters_examples:
  "team_quarters None = [0, 0, 0, 0]"
  "team_quarters (Some []) = [0, 0, 0, 0]"
  "team_quarters (Some [\<lparr>pd_score = Some 27\<rparr>]) = [27, 0, 0, 0]"
  "team_quarters (Some (map (\<lambda>s. \<lparr>pd_score = Some s\<rparr>) [1, 2, 3, 4, 5])) = [1, 2, 3, 4]"
  by (simp_all add: team_quarters_eq dict_get_def eval_nat_numeral)

subsection \<open>Status, period label and clock\<close>

lemma normalize_game_status:
  assumes "normalize_game g = Inr gm"
  shows "(gm_status gm, gm_period gm, gm_clock gm) = game_status g"
  using assms by (auto simp: normalize_game_def Let_def split: sum.splits prod.splits)

lemma ex_game_normalized: "\<not> isl (normalize_game ex_game)"
  by (simp add: ex_game_def ex_team_def game_eval players_eval str_eval float_eval)

lemma ex_game_clock: "live_clock ''PT05M30.90S'' = ''5:30''"
  by (simp add: live_clock_def clock_token_def clock_mins_def clock_secs_def str_eval float_eval)

text \<open>
  C8, as amended. The status, the period label and the clock of a normalized game come
  from the one raw status code. Code 1 (also the default of a missing code) gives
  \<open>upcoming\<close>, the stripped status text as the label and an empty clock. Code 2 gives
  \<open>live\<close>, the clock of the clock normalization, and as the label the ordinal of the period
  and \<open>Qtr\<close> for every period up to 4: \<open>1st Qtr\<close> to \<open>4th Qtr\<close> for the periods 1 to 4, and
  \<open>0th Qtr\<close> for the period 0, which is also the default of a missing period; for a period
  above 4 the label is \<open>OT\<close> and the period minus 4. Every other code gives \<open>final\<close>, an
  empty clock, and the label \<open>Final\<close>, or \<open>Final/OT\<close> and the period minus 4 for a period
  above 4. So \<open>final\<close> never comes with a clock that is not empty.
\<close>

theorem status_period_clock_agree:
  assumes "normalize_game g = Inr gm"
  shows "(g_gameStatus g = Some 1 \<or> g_gameStatus g = None \<longrightarrow>
            gm_status gm = ''upcoming'' \<and> gm_period gm = py_strip (dict_get [] (g_gameStatusText g)) \<and>
            gm_clock gm = []) \<and>
         (g_gameStatus g = Some 2 \<longrightarrow>
            gm_status gm = ''live'' \<and>
            gm_clock gm = live_clock (dict_get [] (g_gameClock g)) \<and>
            (dict_get 0 (g_period g) \<le> 4 \<longrightarrow> gm_period gm = ordinal (dict_get 0 (g_period g)) @ '' Qtr'') \<and>
            (dict_get 0 (g_period g) = 0 \<longrightarrow> gm_period gm = ''0th Qtr'') \<and>
            (dict_get 0 (g_period g) = 1 \<longrightarrow> gm_period gm = ''1st Qtr'') \<and>
            (dict_get 0 (g_period g) = 2 \<longrightarrow> gm_period gm = ''2nd Qtr'') \<and>
            (dict_get 0 (g_period g) = 3 \<longrightarrow> gm_period gm = ''3rd Qtr'') \<and>
            (dict_get 0 (g_period g) = 4 \<longrightarrow> gm_period gm = ''4th Qtr'') \<and>
            (4 < dict_get 0 (g_period g) \<longrightarrow> gm_period gm = ''OT'' @ str_int (dict_get 0 (g_period g) - 4))) \<and>
         ((\<exists>c. g_gameStatus g = Some c \<and> c \<noteq> 1 \<and> c \<noteq> 2) \<longrightarrow>
            gm_status gm = ''final'' \<and> gm_clock gm = [] \<and>
            (dict_get 0 (g_period g) \<le> 4 \<longrightarrow> gm_period gm = ''Final'') \<and>
            (4 < dict_get 0 (g_period g) \<longrightarrow> gm_period gm = ''Final/OT'' @ str_int (dict_get 0 (g_period g) - 4))) \<and>
         (gm_status gm = ''final'' \<longrightarrow> gm_clock gm = []) \<and>
         (gm_status gm = ''upcoming'' \<longrightarrow> gm_clock gm = [])"
proof -
  note st = normalize_game_status [OF assms, symmetric]
  have o1: "ordinal 1 = ''1st''" and o2: "ordinal 2 = ''2nd''" and o3: "ordinal 3 = ''3rd''"
    and o4: "ordinal 4 = ''4th''" and o0: "ordinal 0 = ''0th''"
    by (simp_all add: ordinal_def str_int_def str_nat.simps digit_char_def)
  have up: "g_gameStatus g = Some 1 \<or> g_gameStatus g = None \<Longrightarrow>
            gm_status gm = ''upcoming'' \<and> gm_period gm = py_strip (dict_get [] (g_gameStatusText g)) \<and>
            gm_clock gm = []"
    using st by (auto simp: game_status_def dict_get_def Let_def)
  have live: "g_gameStatus g = Some 2 \<Longrightarrow>
            gm_status gm = ''live'' \<and> gm_clock gm = live_clock (dict_get [] (g_gameClock g)) \<and>
            gm_period gm = live_period (dict_get 0 (g_period g))"
    using st by (simp add: game_status_def dict_get_def Let_def)
  have fin: "g_gameStatus g = Some c \<Longrightarrow> c \<noteq> 1 \<Longrightarrow> c \<noteq> 2 \<Longrightarrow>
            gm_status gm = ''final'' \<and> gm_clock gm = [] \<and> gm_period gm = final_period (dict_get 0 (g_period g))" for c
    using st by (simp add: game_status_def dict_get_def Let_def)
  have clk: "gm_status gm = ''final'' \<or> gm_status gm = ''upcoming'' \<Longrightarrow> gm_clock gm = []"
    using st by (auto simp: game_status_def Let_def split: if_splits)
  show ?thesis
    using up live fin clk
    by (auto simp: live_period_def final_period_def o1 o2 o3 o4 o0)
qed

theorem status_period_clock_agree_witness:
  "\<exists>gm. normalize_game ex_game = Inr gm \<and> gm_status gm = ''live'' \<and> gm_period gm = ''2nd Qtr'' \<and>
        gm_clock gm = ''5:30''"
proof -
  from ex_game_normalized obtain gm where e: "normalize_game ex_game = Inr gm"
    by (cases "normalize_game ex_game") auto
  from status_period_clock_agree [OF e]
  have "gm_status gm = ''live'' \<and> gm_period gm = ''2nd Qtr'' \<and> gm_clock gm = ''5:30''"
    by (simp add: ex_game_def dict_get_def ex_game_clock ordinal_def float_eval)
  with e show ?thesis by blast
qed

text \<open>
  The claim as stated fails for a live game without a period: its label is \<open>0th Qtr\<close>,
  which is none of \<open>1st Qtr\<close> to \<open>4th Qtr\<close> and does not start with \<open>OT\<close>.
\<close>

lemma ex_live_no_period_normalized: "\<not> isl (normalize_game ex_live_no_period)"
  by (simp add: ex_live_no_period_def ex_game_def ex_team_def game_eval players_eval str_eval float_eval)

theorem live_label_counterexample:
  "\<exists>gm. normalize_game ex_live_no_period = Inr gm \<and> gm_status gm = ''live'' \<and>
        gm_period gm = ''0th Qtr'' \<and>
        gm_period gm \<notin> set [''1st Qtr'', ''2nd Qtr'', ''3rd Qtr'', ''4th Qtr''] \<and>
        take 2 (gm_period gm) \<noteq> ''OT''"
proof -
  from ex_live_no_period_normalized obtain gm where e: "normalize_game ex_live_no_period = Inr gm"
    by (cases "normalize_game ex_live_no_period") auto
  have "game_status ex_live_no_period = (''live'', ''0th Qtr'', ''5:30'')"
    by (simp add: game_status_def ex_live_no_period_def ex_game_def dict_get_def live_period_def
        ordinal_def ex_game_clock float_eval)
  with normalize_game_status [OF e]
  have "gm_status gm = ''live'' \<and> gm_period gm = ''0th Qtr''"
    by simp
  with e show ?thesis by auto
qed

subsection \<open>Clock\<close>








subsection \<open>Minutes\<close>


text \<open>The other tokens of the specification, and a number that is not finite.\<close>

lemma parse_minutes_examples:
  "parse_minutes (VStr ''25:30'') = Inr 25"
  "parse_minutes (VStr ''25'') = Inr 25"
  "parse_minutes (VStr ''PT25M'') = Inr 25"
  "parse_minutes (VStr []) = Inr 0"
  "parse_minutes (VStr ''abc'') = Inr 0"
  "parse_minutes (VInt 25) = Inr 25"
  "parse_minutes (VFloat (Finite False (51 / 2))) = Inr 25"
  by (simp_all add: parse_minutes_str_def minutes_token_def str_eval float_eval)

lemma parse_minutes_string_returns: "\<exists>m. parse_minutes (VStr s) = Inr m"
  by simp

lemma parse_minutes_nan_raises: "parse_minutes (VFloat NaN) = Inl ValueError"
  by simp

subsection \<open>Shooting percentage\<close>
















text \<open>
  A percentage halfway between two decimals (28.75) may go down, and for counts near
  \<open>2^52\<close> the result is no longer within 0.05 of the exact percentage.
\<close>

lemma pct_tie_example: "pct 23 80 = Inr (round_double False (287 / 10))"
  by (simp add: float_eval)

lemma pct_large_counts:
  "pct (2 ^ 52 + 1) 3 = Inr (Finite False 150119987579016576) \<and>
   \<bar>150119987579016576 - 100 * (2 ^ 52 + 1) / 3\<bar> > (9 :: rat)"
  by (simp add: float_eval)

end
